theory Spec2Isabelle
  imports Complex_Main "HOL-Library.Sublist"
begin

section \<open>Python values, exceptions and small library functions\<close>

text \<open>
  The agent of \<^verbatim>\<open>src/agenticai/singleagent.py\<close> (class \<^verbatim>\<open>ChatAgent\<close>) is embedded
  with explicit state passing: every method takes the agent and returns the agent it
  leaves behind, together with its result or the exception it raises.
\<close>

datatype pyval = PyNone | PyBool bool | PyInt int | PyStr string

datatype pyerror =
    ValueError string
  | TypeError string
  | KernelServiceNotFoundError
  | SkillNotFoundError string
  | SkillInvalidError string
  | SkillNotLoadedError string
  | ValidationError string
  | ProviderFault string

text \<open>Truthiness of an \<^verbatim>\<open>Optional[str]\<close>: \<^verbatim>\<open>None\<close> and the empty string are false.\<close>

fun truthy :: "string option \<Rightarrow> bool" where
  "truthy None = False"
| "truthy (Some s) = (s \<noteq> [])"

text \<open>\<^verbatim>\<open>a or b\<close> on optional strings.\<close>

definition py_or :: "string option \<Rightarrow> string option \<Rightarrow> string option" where
  "py_or a b = (if truthy a then a else b)"

text \<open>\<^verbatim>\<open>sep.join(xs)\<close>.\<close>

fun join :: "string \<Rightarrow> string list \<Rightarrow> string" where
  "join sep [] = []"
| "join sep [x] = x"
| "join sep (x # y # ys) = x @ sep @ join sep (y # ys)"

text \<open>\<^verbatim>\<open>os.path.basename\<close> and \<^verbatim>\<open>os.path.dirname\<close> (POSIX): split at the last slash;
  the head loses its trailing slashes unless it consists of slashes only.\<close>

definition basename :: "string \<Rightarrow> string" where
  "basename p = rev (takeWhile (\<lambda>c. c \<noteq> CHR ''/'') (rev p))"

definition dirname :: "string \<Rightarrow> string" where
  "dirname p =
     (let head = rev (dropWhile (\<lambda>c. c \<noteq> CHR ''/'') (rev p))
      in if head \<noteq> [] \<and> \<not> list_all (\<lambda>c. c = CHR ''/'') head
         then rev (dropWhile (\<lambda>c. c = CHR ''/'') (rev head))
         else head)"

section \<open>Chat history\<close>

datatype role = System | User | Assistant | Tool

type_synonym chat_history = "(role \<times> string) list"

section \<open>Planner policy: execution settings and function choice behavior\<close>

text \<open>
  \<^verbatim>\<open>FunctionChoiceBehavior\<close> and \<^verbatim>\<open>AzureChatPromptExecutionSettings\<close> are data classes of
  the semantic-kernel library; they are modelled as the records of the fields this
  program reads and writes, together with the service id that the library reads when
  settings are put into \<^verbatim>\<open>KernelArguments\<close>.
\<close>

record function_choice =
  enable_kernel_functions :: bool
  maximum_auto_invoke_attempts :: int
  filters :: "(string \<times> string list) list option"
  fcb_type :: "string option"

record execution_settings =
  settings_service_id :: "string option"
  temperature :: "real option"
  top_p :: "real option"
  presence_penalty :: "real option"
  frequency_penalty :: "real option"
  max_tokens :: "int option"
  number_of_responses :: "int option"
  stop :: "string list option"
  stream :: bool
  user :: "string option"
  function_call :: "string option"
  function_choice_behavior :: "function_choice option"

text \<open>The three shapes of \<^verbatim>\<open>settings\<close> accepted by \<^verbatim>\<open>KernelArguments\<close>.\<close>

datatype settings_arg =
    OneSetting execution_settings
  | SettingList "execution_settings list"
  | SettingDict "(string \<times> execution_settings) list"

text \<open>\<^verbatim>\<open>FunctionChoiceBehavior.Auto()\<close> with the library's default of five attempts.\<close>

definition FunctionChoiceBehavior_Auto :: function_choice where
  "FunctionChoiceBehavior_Auto =
     \<lparr>enable_kernel_functions = True, maximum_auto_invoke_attempts = 5,
      filters = None, fcb_type = Some ''auto''\<rparr>"

text \<open>\<^verbatim>\<open>_configure_planner_config\<close>: fresh settings (every option unset, no streaming) with
  automatic function choice.\<close>

definition configure_planner_config :: execution_settings where
  "configure_planner_config =
     \<lparr>settings_service_id = None,
      temperature = None, top_p = None, presence_penalty = None, frequency_penalty = None,
      max_tokens = None, number_of_responses = None, stop = None, stream = False,
      user = None, function_call = None,
      function_choice_behavior = Some FunctionChoiceBehavior_Auto\<rparr>"

section \<open>Kernel, services and plugins\<close>

record service =
  svc_service_id :: string
  deployment_name :: "string option"
  api_key :: "string option"
  endpoint :: "string option"
  api_version :: "string option"

record kernel_plugin =
  kp_name :: string
  kp_functions :: "string list"

record sk_kernel =
  services :: "service list"
  plugins :: "string \<rightharpoonup> kernel_plugin"

text \<open>Reading a plugin from a directory is the library's work on the file system; it is a
  parameter: parent directory and plugin name to the plugin or the exception.\<close>

type_synonym plugin_loader = "string \<Rightarrow> string \<Rightarrow> pyerror + kernel_plugin"

text \<open>\<^verbatim>\<open>Kernel.add_plugin(parent_directory=..., plugin_name=...)\<close>: the library refuses an
  empty name, reads the plugin and stores it in its table under the name.\<close>

definition Kernel_add_plugin :: "plugin_loader \<Rightarrow> string \<Rightarrow> string \<Rightarrow> sk_kernel \<Rightarrow> pyerror + sk_kernel" where
  "Kernel_add_plugin load parent_directory plugin_name k =
     (if plugin_name = [] then Inl (ValueError ''plugin_name must be provided if a plugin is not supplied.'')
      else case load parent_directory plugin_name of
             Inl e \<Rightarrow> Inl e
           | Inr p \<Rightarrow> Inr (k\<lparr>plugins := (plugins k)(plugin_name \<mapsto> p)\<rparr>))"

text \<open>\<^verbatim>\<open>Kernel.get_service(type=ChatCompletionClientBase)\<close>: the only services this program
  registers are chat completion services; the first one is returned.\<close>

definition Kernel_get_service :: "sk_kernel \<Rightarrow> pyerror + service" where
  "Kernel_get_service k =
     (case services k of [] \<Rightarrow> Inl KernelServiceNotFoundError | s # _ \<Rightarrow> Inr s)"

section \<open>Skill registry\<close>

text \<open>
  Modelled from the spec: the class \<^verbatim>\<open>Skills\<close> of \<^verbatim>\<open>src/agenticai/skills.py\<close> is not among
  the sources. Section 4.3 of the specification gives its contract: \<^verbatim>\<open>load\<close> resolves, for
  each name, the bundle location, verifies that the bundle exposes at least one
  capability and marks it active; an unknown name fails with \<^verbatim>\<open>SkillNotFoundError\<close>, a
  bundle without capabilities with \<^verbatim>\<open>SkillInvalidError\<close>; loading an already loaded
  skill is a no-op; \<^verbatim>\<open>get\<close> fails with \<^verbatim>\<open>SkillNotLoadedError\<close> on a skill not loaded.
  The bundles found under the root directory are the field \<open>bundles\<close>.
\<close>

record skill =
  directory :: string
  capabilities :: "string list"

record skills =
  parent_directory :: string
  bundles :: "string \<rightharpoonup> skill"
  loaded :: "string \<rightharpoonup> skill"

definition Skills_load_one :: "string \<Rightarrow> skills \<Rightarrow> (pyerror + unit) \<times> skills" where
  "Skills_load_one n m =
     (case loaded m n of
        Some _ \<Rightarrow> (Inr (), m)
      | None \<Rightarrow>
          (case bundles m n of
             None \<Rightarrow> (Inl (SkillNotFoundError n), m)
           | Some b \<Rightarrow>
               if capabilities b = [] then (Inl (SkillInvalidError n), m)
               else (Inr (), m\<lparr>loaded := (loaded m)(n \<mapsto> b)\<rparr>)))"

fun Skills_load_skills :: "string list \<Rightarrow> skills \<Rightarrow> (pyerror + unit) \<times> skills" where
  "Skills_load_skills [] m = (Inr (), m)"
| "Skills_load_skills (n # ns) m =
     (case Skills_load_one n m of
        (Inl e, m') \<Rightarrow> (Inl e, m')
      | (Inr _, m') \<Rightarrow> Skills_load_skills ns m')"

definition Skills_get_skill :: "skills \<Rightarrow> string \<Rightarrow> pyerror + skill" where
  "Skills_get_skill m n =
     (case loaded m n of None \<Rightarrow> Inl (SkillNotLoadedError n) | Some b \<Rightarrow> Inr b)"

section \<open>The agent\<close>

text \<open>What the constructor and the skill loader read from outside the program: the
  environment after \<^verbatim>\<open>load_dotenv()\<close>, the working directory, the eight digits drawn by
  \<^verbatim>\<open>_generate_8digit_id\<close>, the skill bundles in the plugin store and the library's
  plugin reader.\<close>

record world =
  environ :: "string \<rightharpoonup> string"
  cwd :: string
  random_digits :: string
  plugin_store :: "string \<rightharpoonup> skill"
  read_plugin :: plugin_loader

record agent =
  name :: "string option"
  tracing_enabled :: bool
  agent_id :: string
  description :: "string option"
  instructions :: "string option"
  chat_history :: chat_history
  AZURE_OPENAI_KEY :: "string option"
  AZURE_OPENAI_API_ENDPOINT :: "string option"
  AZURE_OPENAI_API_VERSION :: "string option"
  AZURE_AOAI_CHAT_MODEL_NAME_DEPLOYMENT_ID :: "string option"
  service_id :: string
  kernel :: sk_kernel
  planner_config :: execution_settings
  planner_behavior :: "function_choice option"
  skills_manager :: skills
  default_kernel_arguments :: "string \<rightharpoonup> pyval"
  default_kernel_settings :: "settings_arg option"
  chat_completion :: "service option"

text \<open>The parameters of \<^verbatim>\<open>ChatAgent.__init__\<close>, in the order of the signature.\<close>

record init_args =
  arg_service_id :: "string option"
  arg_name :: "string option"
  arg_id :: "string option"
  arg_description :: "string option"
  arg_instructions :: "string option"
  arg_skills :: "string list option"
  arg_planner_config :: "execution_settings option"
  arg_planner_behavior :: "function_choice option"
  arg_tracing_enabled :: bool
  arg_azure_openai_key :: "string option"
  arg_azure_openai_endpoint :: "string option"
  arg_azure_openai_api_version :: "string option"
  arg_azure_openai_chat_deployment_id :: "string option"

subsection \<open>History operations\<close>

definition add_system_message :: "string \<Rightarrow> agent \<Rightarrow> agent" where
  "add_system_message message a = a\<lparr>chat_history := chat_history a @ [(System, message)]\<rparr>"

definition add_user_message :: "string \<Rightarrow> agent \<Rightarrow> agent" where
  "add_user_message message a = a\<lparr>chat_history := chat_history a @ [(User, message)]\<rparr>"

definition clear_chat_history :: "agent \<Rightarrow> agent" where
  "clear_chat_history a = a\<lparr>chat_history := []\<rparr>"

subsection \<open>Loading skills\<close>

text \<open>The loop of \<^verbatim>\<open>load_skills\<close>: every name is looked up in the registry and its
  directory is handed to the kernel; the first exception ends the loop.\<close>

fun load_skills_loop :: "plugin_loader \<Rightarrow> string list \<Rightarrow> agent \<Rightarrow> (pyerror + unit) \<times> agent" where
  "load_skills_loop load [] a = (Inr (), a)"
| "load_skills_loop load (skill_name # rest) a =
     (case Skills_get_skill (skills_manager a) skill_name of
        Inl e \<Rightarrow> (Inl e, a)
      | Inr plugin \<Rightarrow>
          (let plugin_path = directory plugin;
               parent_dir = dirname plugin_path;
               nm = basename plugin_path
           in case Kernel_add_plugin load parent_dir nm (kernel a) of
                Inl e \<Rightarrow> (Inl e, a)
              | Inr k \<Rightarrow> load_skills_loop load rest (a\<lparr>kernel := k\<rparr>)))"

definition load_skills :: "plugin_loader \<Rightarrow> string list \<Rightarrow> agent \<Rightarrow> (pyerror + unit) \<times> agent" where
  "load_skills load skill_names a =
     (case Skills_load_skills skill_names (skills_manager a) of
        (Inl e, m) \<Rightarrow> (Inl e, a\<lparr>skills_manager := m\<rparr>)
      | (Inr _, m) \<Rightarrow> load_skills_loop load skill_names (a\<lparr>skills_manager := m\<rparr>))"

subsection \<open>Construction\<close>

text \<open>The dictionary \<^verbatim>\<open>required_vars\<close>, in insertion order.\<close>

definition required_vars :: "string option \<Rightarrow> string option \<Rightarrow> string option \<Rightarrow> string option
    \<Rightarrow> (string \<times> string option) list" where
  "required_vars key ep version deployment =
     [(''AZURE_OPENAI_KEY'', key),
      (''AZURE_OPENAI_API_ENDPOINT'', ep),
      (''AZURE_OPENAI_API_VERSION'', version),
      (''AZURE_AOAI_CHAT_MODEL_NAME_DEPLOYMENT_ID'', deployment)]"

text \<open>The four settings as the constructor resolves them: the explicit argument if it
  is truthy, the value of the environment otherwise.\<close>

definition resolved_vars :: "world \<Rightarrow> init_args \<Rightarrow> (string \<times> string option) list" where
  "resolved_vars w args =
     required_vars
       (py_or (arg_azure_openai_key args) (environ w ''AZURE_OPENAI_KEY''))
       (py_or (arg_azure_openai_endpoint args) (environ w ''AZURE_OPENAI_API_ENDPOINT''))
       (py_or (arg_azure_openai_api_version args) (environ w ''AZURE_OPENAI_API_VERSION''))
       (py_or (arg_azure_openai_chat_deployment_id args)
              (environ w ''AZURE_AOAI_CHAT_MODEL_NAME_DEPLOYMENT_ID''))"

definition missing_vars :: "(string \<times> string option) list \<Rightarrow> string list" where
  "missing_vars rv = map fst (filter (\<lambda>(var_name, var_value). \<not> truthy var_value) rv)"

definition missing_message :: "string list \<Rightarrow> string" where
  "missing_message missing =
     ''Missing the following required Azure OpenAI settings: '' @ join '', '' missing
       @ ''. Check environment variables or pass them explicitly.''"

definition initialize_kernel :: "string \<Rightarrow> string option \<Rightarrow> string option \<Rightarrow> string option
    \<Rightarrow> string option \<Rightarrow> sk_kernel" where
  "initialize_kernel sid deployment key ep version =
     \<lparr>services = [\<lparr>svc_service_id = sid, deployment_name = deployment, api_key = key,
                   endpoint = ep, api_version = version\<rparr>],
      plugins = Map.empty\<rparr>"

text \<open>Lines 97 to 101: the history starts empty and receives the description and the
  instructions, each when it is truthy.\<close>

definition seed_history :: "string option \<Rightarrow> string option \<Rightarrow> chat_history" where
  "seed_history description_arg instructions_arg =
     (let history0 = [];
          history1 = (case description_arg of
                        None \<Rightarrow> history0
                      | Some d \<Rightarrow> if d \<noteq> [] then history0 @ [(System, d)] else history0);
          history2 = (case instructions_arg of
                        None \<Rightarrow> history1
                      | Some i \<Rightarrow> if i \<noteq> [] then history1 @ [(User, i)] else history1)
      in history2)"

text \<open>Lines 139 to 151: the attributes of the agent once the settings are known to be
  present, up to the skill registry.\<close>

definition new_agent :: "world \<Rightarrow> init_args \<Rightarrow> string option \<Rightarrow> string option \<Rightarrow> string option
    \<Rightarrow> string option \<Rightarrow> agent" where
  "new_agent w args key ep version deployment =
     (let the_id = (case arg_id args of None \<Rightarrow> random_digits w | Some i \<Rightarrow> i);
          sid = (case arg_service_id args of
                   None \<Rightarrow> ''openai-chat''
                 | Some s \<Rightarrow> if s \<noteq> [] then s else ''openai-chat'');
          config = (case arg_planner_config args of
                      Some c \<Rightarrow> c | None \<Rightarrow> configure_planner_config);
          behavior = (case arg_planner_behavior args of
                        Some b \<Rightarrow> Some b | None \<Rightarrow> function_choice_behavior config)
      in \<lparr>name = arg_name args, tracing_enabled = arg_tracing_enabled args,
          agent_id = the_id, description = arg_description args,
          instructions = arg_instructions args,
          chat_history = seed_history (arg_description args) (arg_instructions args),
          AZURE_OPENAI_KEY = key, AZURE_OPENAI_API_ENDPOINT = ep,
          AZURE_OPENAI_API_VERSION = version,
          AZURE_AOAI_CHAT_MODEL_NAME_DEPLOYMENT_ID = deployment,
          service_id = sid,
          kernel = initialize_kernel sid deployment key ep version,
          planner_config = config, planner_behavior = behavior,
          skills_manager =
            \<lparr>parent_directory = cwd w @ ''/src/agenticai/plugins/plugins_store'',
             bundles = plugin_store w, loaded = Map.empty\<rparr>,
          default_kernel_arguments = Map.empty, default_kernel_settings = None,
          chat_completion = None\<rparr>)"

text \<open>Lines 155 to 165: the default arguments, the default settings and the unbound chat
  completion service, assigned after the skills are loaded.\<close>

definition init_defaults :: "agent \<Rightarrow> agent" where
  "init_defaults a =
     a\<lparr>default_kernel_arguments := Map.empty, default_kernel_settings := None,
       chat_completion := None\<rparr>"

text \<open>\<^verbatim>\<open>ChatAgent.__init__\<close>: the four settings are resolved, a missing one raises
  \<^verbatim>\<open>ValueError\<close> with all the missing names; then the kernel, the planner and the registry
  are set up and the skills, if any, are loaded.\<close>

definition init :: "world \<Rightarrow> init_args \<Rightarrow> pyerror + agent" where
  "init w args =
     (let key = py_or (arg_azure_openai_key args) (environ w ''AZURE_OPENAI_KEY'');
          ep = py_or (arg_azure_openai_endpoint args) (environ w ''AZURE_OPENAI_API_ENDPOINT'');
          version = py_or (arg_azure_openai_api_version args)
                          (environ w ''AZURE_OPENAI_API_VERSION'');
          deployment = py_or (arg_azure_openai_chat_deployment_id args)
                             (environ w ''AZURE_AOAI_CHAT_MODEL_NAME_DEPLOYMENT_ID'');
          missing = missing_vars (required_vars key ep version deployment)
      in if missing \<noteq> [] then Inl (ValueError (missing_message missing))
         else
           (let a = new_agent w args key ep version deployment
            in case arg_skills args of
                 None \<Rightarrow> Inr (init_defaults a)
               | Some skill_names \<Rightarrow>
                   if skill_names = [] then Inr (init_defaults a)
                   else (case load_skills (read_plugin w) skill_names a of
                           (Inl e, _) \<Rightarrow> Inl e
                         | (Inr _, a') \<Rightarrow> Inr (init_defaults a'))))"

subsection \<open>Configuration setters\<close>

text \<open>The settings object is a pydantic model of the library that validates a value when
  it is assigned and raises on a value it rejects, leaving the attribute as it was. What
  it accepts for each attribute is the library's; it is a parameter.\<close>

record settings_validator =
  ok_temperature :: "real \<Rightarrow> bool"
  ok_top_p :: "real \<Rightarrow> bool"
  ok_presence_penalty :: "real \<Rightarrow> bool"
  ok_frequency_penalty :: "real \<Rightarrow> bool"
  ok_max_tokens :: "int \<Rightarrow> bool"
  ok_number_of_responses :: "int \<Rightarrow> bool"
  ok_stop :: "string list \<Rightarrow> bool"
  ok_user :: "string \<Rightarrow> bool"
  ok_function_call :: "string \<Rightarrow> bool"
  ok_stream :: "bool \<Rightarrow> bool"

text \<open>One guarded assignment \<^verbatim>\<open>if x is not None: self.planner_config.f = x\<close>, in a sequence
  of statements: nothing happens once an earlier statement has raised or when the
  argument is \<^verbatim>\<open>None\<close>; a rejected value raises and assigns nothing.\<close>

definition assign_if_given :: "'v option \<Rightarrow> ('v \<Rightarrow> bool) \<Rightarrow> string
    \<Rightarrow> ('v \<Rightarrow> execution_settings \<Rightarrow> execution_settings)
    \<Rightarrow> pyerror option \<times> execution_settings \<Rightarrow> pyerror option \<times> execution_settings" where
  "assign_if_given arg ok field assign st =
     (case fst st of
        Some e \<Rightarrow> st
      | None \<Rightarrow>
          (case arg of
             None \<Rightarrow> st
           | Some v \<Rightarrow>
               if ok v then (None, assign v (snd st))
               else (Some (ValidationError field), snd st)))"

text \<open>\<^verbatim>\<open>set_planner_execution_settings\<close>. Nine parameters default to \<^verbatim>\<open>None\<close> and are
  assigned only when given, in the order of the source; \<^verbatim>\<open>stream: bool = False\<close> is assigned
  last and without a guard, so an omitted \<open>stream\<close> (here \<open>None\<close>) is the default
  \<open>False\<close>. The settings object is mutated in place: the assignments made before an
  exception stay.\<close>

definition set_planner_execution_settings ::
  "settings_validator \<Rightarrow> real option \<Rightarrow> real option \<Rightarrow> real option \<Rightarrow> real option
     \<Rightarrow> int option \<Rightarrow> int option \<Rightarrow> string list option \<Rightarrow> bool option \<Rightarrow> string option
     \<Rightarrow> string option \<Rightarrow> agent \<Rightarrow> (pyerror + unit) \<times> agent" where
  "set_planner_execution_settings vd temperature_arg top_p_arg presence_penalty_arg
       frequency_penalty_arg max_tokens_arg number_of_responses_arg stop_sequences
       stream_arg user_arg function_call_arg a =
     (let st0 = (None, planner_config a);
          st1 = assign_if_given temperature_arg (ok_temperature vd) ''temperature''
                  (\<lambda>v c. c\<lparr>temperature := Some v\<rparr>) st0;
          st2 = assign_if_given top_p_arg (ok_top_p vd) ''top_p''
                  (\<lambda>v c. c\<lparr>top_p := Some v\<rparr>) st1;
          st3 = assign_if_given presence_penalty_arg (ok_presence_penalty vd)
                  ''presence_penalty'' (\<lambda>v c. c\<lparr>presence_penalty := Some v\<rparr>) st2;
          st4 = assign_if_given frequency_penalty_arg (ok_frequency_penalty vd)
                  ''frequency_penalty'' (\<lambda>v c. c\<lparr>frequency_penalty := Some v\<rparr>) st3;
          st5 = assign_if_given max_tokens_arg (ok_max_tokens vd) ''max_tokens''
                  (\<lambda>v c. c\<lparr>max_tokens := Some v\<rparr>) st4;
          st6 = assign_if_given number_of_responses_arg (ok_number_of_responses vd)
                  ''number_of_responses'' (\<lambda>v c. c\<lparr>number_of_responses := Some v\<rparr>) st5;
          st7 = assign_if_given stop_sequences (ok_stop vd) ''stop''
                  (\<lambda>v c. c\<lparr>stop := Some v\<rparr>) st6;
          st8 = assign_if_given user_arg (ok_user vd) ''user''
                  (\<lambda>v c. c\<lparr>user := Some v\<rparr>) st7;
          st9 = assign_if_given function_call_arg (ok_function_call vd) ''function_call''
                  (\<lambda>v c. c\<lparr>function_call := Some v\<rparr>) st8;
          stream_value = (case stream_arg of None \<Rightarrow> False | Some b \<Rightarrow> b);
          st10 = assign_if_given (Some stream_value) (ok_stream vd) ''stream''
                   (\<lambda>v c. c\<lparr>stream := v\<rparr>) st9
      in (case fst st10 of Some e \<Rightarrow> Inl e | None \<Rightarrow> Inr (),
          a\<lparr>planner_config := snd st10\<rparr>))"

text \<open>\<^verbatim>\<open>set_planner_behavior\<close>: builds a \<^verbatim>\<open>FunctionChoiceBehavior\<close> from the four arguments as
  they are and stores it; the function has no check and no \<^verbatim>\<open>raise\<close>.\<close>

definition set_planner_behavior ::
  "bool \<Rightarrow> int \<Rightarrow> (string \<times> string list) list option \<Rightarrow> string option \<Rightarrow> agent \<Rightarrow> agent" where
  "set_planner_behavior enable max_auto_invoke_attempts filters_arg behavior_type a =
     (let behavior = \<lparr>enable_kernel_functions = enable,
                      maximum_auto_invoke_attempts = max_auto_invoke_attempts,
                      filters = filters_arg, fcb_type = behavior_type\<rparr>
      in a\<lparr>planner_config := (planner_config a)\<lparr>function_choice_behavior := Some behavior\<rparr>\<rparr>)"

text \<open>\<^verbatim>\<open>configure_kernel_arguments\<close>: \<^verbatim>\<open>arguments or {}\<close> and the settings as given.\<close>

definition configure_kernel_arguments ::
  "(string \<rightharpoonup> pyval) option \<Rightarrow> settings_arg option \<Rightarrow> agent \<Rightarrow> agent" where
  "configure_kernel_arguments arguments settings a =
     a\<lparr>default_kernel_arguments := (case arguments of None \<Rightarrow> Map.empty | Some m \<Rightarrow> m),
       default_kernel_settings := settings\<rparr>"

subsection \<open>Running a request\<close>

text \<open>The constructor of the library's \<^verbatim>\<open>KernelArguments\<close> turns its \<^verbatim>\<open>settings\<close> into a
  dictionary keyed by service id: falsy settings (\<^verbatim>\<open>None\<close>, an empty list, an empty
  dictionary) give \<^verbatim>\<open>None\<close>, a dictionary is taken as it is, a list or a single object is
  keyed by \<^verbatim>\<open>service_id or "default"\<close>, a later element of a list replacing an earlier
  one under the same key.\<close>

definition settings_key :: "execution_settings \<Rightarrow> string" where
  "settings_key s =
     (case settings_service_id s of
        None \<Rightarrow> ''default''
      | Some i \<Rightarrow> if i \<noteq> [] then i else ''default'')"

fun settings_dict :: "settings_arg option \<Rightarrow> (string \<rightharpoonup> execution_settings) option" where
  "settings_dict None = None"
| "settings_dict (Some (OneSetting s)) = Some [settings_key s \<mapsto> s]"
| "settings_dict (Some (SettingList xs)) =
     (if xs = [] then None
      else Some (foldl (\<lambda>m s. m(settings_key s \<mapsto> s)) Map.empty xs))"
| "settings_dict (Some (SettingDict kvs)) =
     (if kvs = [] then None else Some (map_of kvs))"

text \<open>\<^verbatim>\<open>KernelArguments(settings=final_settings, **final_args)\<close>: a key \<^verbatim>\<open>settings\<close> among the
  unpacked arguments is a keyword given twice, and a key \<^verbatim>\<open>self\<close> collides with the
  first parameter of the constructor; Python rejects both with a \<^verbatim>\<open>TypeError\<close>. Otherwise
  the object holds the settings dictionary and the entries.\<close>

record kernel_arguments =
  ka_execution_settings :: "(string \<rightharpoonup> execution_settings) option"
  items :: "string \<rightharpoonup> pyval"

definition KernelArguments :: "settings_arg option \<Rightarrow> (string \<rightharpoonup> pyval) \<Rightarrow> pyerror + kernel_arguments" where
  "KernelArguments settings kwargs =
     (if kwargs ''settings'' \<noteq> None then Inl (TypeError ''settings'')
      else if kwargs ''self'' \<noteq> None then Inl (TypeError ''self'')
      else Inr \<lparr>ka_execution_settings = settings_dict settings, items = kwargs\<rparr>)"

text \<open>What \<^verbatim>\<open>get_chat_message_contents\<close> receives, and the provider itself: a parameter
  that answers a request with a list of messages or raises.\<close>

record request =
  req_chat_history :: chat_history
  req_settings :: execution_settings
  req_kernel :: sk_kernel
  req_arguments :: kernel_arguments

type_synonym provider = "service \<Rightarrow> request \<Rightarrow> pyerror + (role \<times> string) list"

datatype response = Message "role \<times> string" | Text string

fun optional_str :: "string option \<Rightarrow> pyval" where
  "optional_str None = PyNone"
| "optional_str (Some s) = PyStr s"

text \<open>Lines 410 to 413 of \<^verbatim>\<open>run\<close>: a prompt that is not \<^verbatim>\<open>None\<close> is appended, the system
  prompt first.\<close>

definition append_prompts :: "string option \<Rightarrow> string option \<Rightarrow> agent \<Rightarrow> agent" where
  "append_prompts system_prompt user_prompt a =
     (let a1 = (case system_prompt of None \<Rightarrow> a | Some s \<Rightarrow> add_system_message s a)
      in case user_prompt of None \<Rightarrow> a1 | Some u \<Rightarrow> add_user_message u a1)"

text \<open>Lines 419 to 432: the defaults are copied and updated with the arguments of the
  call, the settings of the call replace the default ones when given, and the entry
  \<^verbatim>\<open>input\<close> of the constructed arguments is assigned the user prompt.\<close>

definition build_arguments :: "string option \<Rightarrow> (string \<rightharpoonup> pyval) option \<Rightarrow> settings_arg option
    \<Rightarrow> agent \<Rightarrow> pyerror + kernel_arguments" where
  "build_arguments user_prompt run_arguments run_settings a =
     (let final_args = (case run_arguments of
                          None \<Rightarrow> default_kernel_arguments a
                        | Some r \<Rightarrow> default_kernel_arguments a ++ r);
          final_settings = (case run_settings of
                              Some s \<Rightarrow> Some s | None \<Rightarrow> default_kernel_settings a)
      in case KernelArguments final_settings final_args of
           Inl e \<Rightarrow> Inl e
         | Inr args_for_kernel \<Rightarrow>
             Inr (args_for_kernel\<lparr>items :=
                    (items args_for_kernel)(''input'' \<mapsto> optional_str user_prompt)\<rparr>))"

text \<open>Lines 434 to 437: the chat completion service is fetched from the kernel on first
  use and kept.\<close>

definition bind_chat_completion :: "agent \<Rightarrow> (pyerror + service) \<times> agent" where
  "bind_chat_completion a =
     (case chat_completion a of
        Some svc \<Rightarrow> (Inr svc, a)
      | None \<Rightarrow>
          (case Kernel_get_service (kernel a) of
             Inl e \<Rightarrow> (Inl e, a)
           | Inr svc \<Rightarrow> (Inr svc, a\<lparr>chat_completion := Some svc\<rparr>)))"

text \<open>Lines 410 to 437 together: the service and the request about to be dispatched, or
  the exception raised before the provider is reached.\<close>

definition prepare_run :: "string option \<Rightarrow> string option \<Rightarrow> (string \<rightharpoonup> pyval) option
    \<Rightarrow> settings_arg option \<Rightarrow> agent \<Rightarrow> (pyerror + service \<times> request) \<times> agent" where
  "prepare_run system_prompt user_prompt run_arguments run_settings a =
     (let a2 = append_prompts system_prompt user_prompt a
      in case build_arguments user_prompt run_arguments run_settings a2 of
           Inl e \<Rightarrow> (Inl e, a2)
         | Inr args_for_kernel \<Rightarrow>
             (case bind_chat_completion a2 of
                (Inl e, a3) \<Rightarrow> (Inl e, a3)
              | (Inr svc, a3) \<Rightarrow>
                  (Inr (svc, \<lparr>req_chat_history = chat_history a3,
                              req_settings = planner_config a3, req_kernel = kernel a3,
                              req_arguments = args_for_kernel\<rparr>), a3)))"

text \<open>\<^verbatim>\<open>run\<close>: the provider is called with the prepared request; an exception is logged
  and raised again as it is; otherwise the first message, or the empty string for an
  empty result.\<close>

definition run :: "provider \<Rightarrow> string option \<Rightarrow> string option \<Rightarrow> (string \<rightharpoonup> pyval) option
    \<Rightarrow> settings_arg option \<Rightarrow> agent \<Rightarrow> (pyerror + response) \<times> agent" where
  "run get_chat_message_contents system_prompt user_prompt run_arguments run_settings a =
     (case prepare_run system_prompt user_prompt run_arguments run_settings a of
        (Inl e, a') \<Rightarrow> (Inl e, a')
      | (Inr (svc, req), a') \<Rightarrow>
          (case get_chat_message_contents svc req of
             Inl e \<Rightarrow> (Inl e, a')
           | Inr result \<Rightarrow>
               (Inr (case result of [] \<Rightarrow> Text [] | r # _ \<Rightarrow> Message r), a')))"

section \<open>Example inputs\<close>

text \<open>
  A world with the four settings in the environment and one skill in the plugin store,
  the arguments of the scenario of the specification (a description and instructions,
  everything else left out), and the agent the constructor builds from them.
\<close>

definition demo_world :: world where
  "demo_world =
     \<lparr>environ = map_of [(''AZURE_OPENAI_KEY'', ''secret''),
                        (''AZURE_OPENAI_API_ENDPOINT'', ''https://example.test''),
                        (''AZURE_OPENAI_API_VERSION'', ''2024-02-01''),
                        (''AZURE_AOAI_CHAT_MODEL_NAME_DEPLOYMENT_ID'', ''gpt-4o'')],
      cwd = ''/app'',
      random_digits = ''49382716'',
      plugin_store = map_of [(''retrieval'',
         \<lparr>directory = ''/app/src/agenticai/plugins/plugins_store/retrieval'',
          capabilities = [''icdCodes'']\<rparr>)],
      read_plugin = (\<lambda>parent nm. Inr \<lparr>kp_name = nm, kp_functions = [''icdCodes'']\<rparr>)\<rparr>"

definition demo_args :: init_args where
  "demo_args =
     \<lparr>arg_service_id = None, arg_name = None, arg_id = None,
      arg_description = Some ''You are helpful'', arg_instructions = Some ''Be concise'',
      arg_skills = None, arg_planner_config = None, arg_planner_behavior = None,
      arg_tracing_enabled = False, arg_azure_openai_key = None,
      arg_azure_openai_endpoint = None, arg_azure_openai_api_version = None,
      arg_azure_openai_chat_deployment_id = None\<rparr>"

definition demo_agent :: agent where
  "demo_agent =
     \<lparr>name = None, tracing_enabled = False, agent_id = ''49382716'',
      description = Some ''You are helpful'', instructions = Some ''Be concise'',
      chat_history = [(System, ''You are helpful''), (User, ''Be concise'')],
      AZURE_OPENAI_KEY = Some ''secret'',
      AZURE_OPENAI_API_ENDPOINT = Some ''https://example.test'',
      AZURE_OPENAI_API_VERSION = Some ''2024-02-01'',
      AZURE_AOAI_CHAT_MODEL_NAME_DEPLOYMENT_ID = Some ''gpt-4o'',
      service_id = ''openai-chat'',
      kernel = initialize_kernel ''openai-chat'' (Some ''gpt-4o'') (Some ''secret'')
                 (Some ''https://example.test'') (Some ''2024-02-01''),
      planner_config = configure_planner_config,
      planner_behavior = Some FunctionChoiceBehavior_Auto,
      skills_manager =
        \<lparr>parent_directory = ''/app/src/agenticai/plugins/plugins_store'',
         bundles = plugin_store demo_world, loaded = Map.empty\<rparr>,
      default_kernel_arguments = Map.empty, default_kernel_settings = None,
      chat_completion = None\<rparr>"

text \<open>
  The same world without a key in the environment and with an empty API version.
\<close>

definition world_without_key_and_version :: world where
  "world_without_key_and_version =
     demo_world\<lparr>environ := map_of [(''AZURE_OPENAI_API_ENDPOINT'', ''https://example.test''),
                                   (''AZURE_OPENAI_API_VERSION'', []),
                                   (''AZURE_AOAI_CHAT_MODEL_NAME_DEPLOYMENT_ID'', ''gpt-4o'')]\<rparr>"

text \<open>
  A provider stub that answers every request in the same way, and agents configured
  with default arguments and with default settings, and settings that differ from the
  planner configuration of these agents.
\<close>

definition stub_provider :: "pyerror + (role \<times> string) list \<Rightarrow> provider" where
  "stub_provider answer svc req = answer"

definition agent_with_defaults :: agent where
  "agent_with_defaults =
     configure_kernel_arguments (Some (map_of [(''x'', PyInt 0), (''y'', PyInt 2)])) None demo_agent"

definition agent_with_settings :: agent where
  "agent_with_settings =
     configure_kernel_arguments None (Some (OneSetting configure_planner_config)) demo_agent"

definition custom_settings :: execution_settings where
  "custom_settings = configure_planner_config\<lparr>temperature := Some (1 / 5)\<rparr>"

text \<open>
  A validator with the ranges of the OpenAI parameters, and the agent after a call that
  switches streaming on.
\<close>

definition range_validator :: settings_validator where
  "range_validator =
     \<lparr>ok_temperature = (\<lambda>v. 0 \<le> v \<and> v \<le> 2),
      ok_top_p = (\<lambda>v. 0 \<le> v \<and> v \<le> 1),
      ok_presence_penalty = (\<lambda>v. - 2 \<le> v \<and> v \<le> 2),
      ok_frequency_penalty = (\<lambda>v. - 2 \<le> v \<and> v \<le> 2),
      ok_max_tokens = (\<lambda>v. 0 < v),
      ok_number_of_responses = (\<lambda>v. 1 \<le> v \<and> v \<le> 128),
      ok_stop = (\<lambda>v. True),
      ok_user = (\<lambda>v. True),
      ok_function_call = (\<lambda>v. True),
      ok_stream = (\<lambda>v. True)\<rparr>"

definition streaming_agent :: agent where
  "streaming_agent =
     snd (set_planner_execution_settings range_validator None None None None None None None
            (Some True) None None demo_agent)"

section \<open>Construction\<close>

lemma missing_vars_demo:
  "missing_vars (required_vars (Some ''secret'') (Some ''https://example.test'')
     (Some ''2024-02-01'') (Some ''gpt-4o'')) = []"
  by (simp add: missing_vars_def required_vars_def)

lemma init_demo: "init demo_world demo_args = Inr demo_agent"
  by (simp add: init_def new_agent_def init_defaults_def seed_history_def demo_world_def
      demo_args_def demo_agent_def py_or_def missing_vars_demo configure_planner_config_def
      Let_def)

lemma demo_agent_services: "services (kernel demo_agent) \<noteq> []"
  by (simp add: demo_agent_def initialize_kernel_def)

lemma demo_agent_fields:
  "default_kernel_arguments demo_agent = Map.empty"
  "default_kernel_settings demo_agent = None"
  "chat_history demo_agent = [(System, ''You are helpful''), (User, ''Be concise'')]"
  "planner_config demo_agent = configure_planner_config"
  by (simp_all add: demo_agent_def)

lemma sublist_join: "x \<in> set xs \<Longrightarrow> sublist x (join sep xs)"
proof (induction sep xs rule: join.induct)
  case (1 sep) then show ?case by simp
next
  case (2 sep y) then show ?case by simp
next
  case (3 sep a b ys)
  show ?case
  proof (cases "x = a")
    case True then show ?thesis by simp
  next
    case False
    with 3 have "sublist x (join sep (b # ys))" by simp
    then obtain ps ss where "join sep (b # ys) = ps @ x @ ss" by (auto simp: sublist_def)
    then have "join sep (a # b # ys) = (a @ sep @ ps) @ x @ ss" by simp
    then show ?thesis unfolding sublist_def by blast
  qed
qed

lemma sublist_missing_message: "k \<in> set missing \<Longrightarrow> sublist k (missing_message missing)"
proof -
  assume "k \<in> set missing"
  then have "sublist k (join '', '' missing)" by (rule sublist_join)
  then obtain ps ss where "join '', '' missing = ps @ k @ ss" by (auto simp: sublist_def)
  then have "missing_message missing =
      (''Missing the following required Azure OpenAI settings: '' @ ps) @ k @
      (ss @ ''. Check environment variables or pass them explicitly.'')"
    by (simp add: missing_message_def)
  then show ?thesis unfolding sublist_def by blast
qed

lemma missing_vars_member:
  "(k, v) \<in> set rv \<Longrightarrow> \<not> truthy v \<Longrightarrow> k \<in> set (missing_vars rv)"
  by (force simp: missing_vars_def)

lemma init_raises_when_missing:
  "missing_vars (resolved_vars w args) \<noteq> [] \<Longrightarrow>
   init w args = Inl (ValueError (missing_message (missing_vars (resolved_vars w args))))"
  by (simp add: init_def resolved_vars_def Let_def)

text \<open>
  C3. Whatever the explicit arguments and the environment are: if at least one of the
  four required settings resolves to \<^verbatim>\<open>None\<close> or to the empty string, the constructor
  raises, and the message of the exception lists every such setting, not only the first.
  The exception class of the code is \<^verbatim>\<open>ValueError\<close>; it is the failure the specification
  calls a configuration error.
\<close>

theorem init_missing_settings:
  assumes "\<exists>(k, v) \<in> set (resolved_vars w args). \<not> truthy v"
  shows "init w args = Inl (ValueError (missing_message (missing_vars (resolved_vars w args))))
       \<and> (\<forall>(k, v) \<in> set (resolved_vars w args). \<not> truthy v \<longrightarrow>
             k \<in> set (missing_vars (resolved_vars w args))
           \<and> sublist k (missing_message (missing_vars (resolved_vars w args))))"
proof -
  from assms obtain k v where kv: "(k, v) \<in> set (resolved_vars w args)" "\<not> truthy v"
    by auto
  then have "k \<in> set (missing_vars (resolved_vars w args))" by (rule missing_vars_member)
  then have "missing_vars (resolved_vars w args) \<noteq> []" by auto
  then have raised: "init w args =
      Inl (ValueError (missing_message (missing_vars (resolved_vars w args))))"
    by (rule init_raises_when_missing)
  have named: "\<forall>(k, v) \<in> set (resolved_vars w args). \<not> truthy v \<longrightarrow>
             k \<in> set (missing_vars (resolved_vars w args))
           \<and> sublist k (missing_message (missing_vars (resolved_vars w args)))"
    by (auto intro: missing_vars_member sublist_missing_message)
  from raised named show ?thesis by blast
qed

lemma resolved_vars_without_key_and_version:
  "resolved_vars world_without_key_and_version demo_args =
     [(''AZURE_OPENAI_KEY'', None),
      (''AZURE_OPENAI_API_ENDPOINT'', Some ''https://example.test''),
      (''AZURE_OPENAI_API_VERSION'', Some []),
      (''AZURE_AOAI_CHAT_MODEL_NAME_DEPLOYMENT_ID'', Some ''gpt-4o'')]"
  by (simp add: resolved_vars_def required_vars_def world_without_key_and_version_def
      demo_world_def demo_args_def py_or_def)

theorem init_missing_settings_witness:
  "init world_without_key_and_version demo_args =
     Inl (ValueError ''Missing the following required Azure OpenAI settings: AZURE_OPENAI_KEY, AZURE_OPENAI_API_VERSION. Check environment variables or pass them explicitly.'')
   \<and> sublist ''AZURE_OPENAI_KEY'' (missing_message [''AZURE_OPENAI_KEY'', ''AZURE_OPENAI_API_VERSION''])
   \<and> sublist ''AZURE_OPENAI_API_VERSION'' (missing_message [''AZURE_OPENAI_KEY'', ''AZURE_OPENAI_API_VERSION''])"
proof -
  have hyp: "\<exists>(k, v) \<in> set (resolved_vars world_without_key_and_version demo_args). \<not> truthy v"
    by (simp add: resolved_vars_without_key_and_version)
  have mv: "missing_vars (resolved_vars world_without_key_and_version demo_args) =
      [''AZURE_OPENAI_KEY'', ''AZURE_OPENAI_API_VERSION'']"
    by (simp add: resolved_vars_without_key_and_version missing_vars_def)
  have msg: "missing_message [''AZURE_OPENAI_KEY'', ''AZURE_OPENAI_API_VERSION''] =
      ''Missing the following required Azure OpenAI settings: AZURE_OPENAI_KEY, AZURE_OPENAI_API_VERSION. Check environment variables or pass them explicitly.''"
    by (simp add: missing_message_def)
  from init_missing_settings [OF hyp]
  have "init world_without_key_and_version demo_args =
          Inl (ValueError (missing_message [''AZURE_OPENAI_KEY'', ''AZURE_OPENAI_API_VERSION'']))"
    and "sublist ''AZURE_OPENAI_KEY''
          (missing_message [''AZURE_OPENAI_KEY'', ''AZURE_OPENAI_API_VERSION''])"
    and "sublist ''AZURE_OPENAI_API_VERSION''
          (missing_message [''AZURE_OPENAI_KEY'', ''AZURE_OPENAI_API_VERSION''])"
    unfolding mv by (simp_all add: resolved_vars_without_key_and_version)
  then show ?thesis unfolding msg by simp
qed

lemma load_skills_loop_chat_history:
  "load_skills_loop load ns a = (r, a') \<Longrightarrow> chat_history a' = chat_history a"
proof (induction ns arbitrary: a)
  case Nil
  then show ?case by simp
next
  case (Cons n ns)
  then show ?case
    by (auto simp: Let_def split: sum.splits)
qed

lemma load_skills_chat_history:
  "load_skills load ns a = (r, a') \<Longrightarrow> chat_history a' = chat_history a"
  by (auto simp: load_skills_def split: prod.splits sum.splits
      dest: load_skills_loop_chat_history)

lemma init_chat_history:
  assumes "init w args = Inr a"
  shows "chat_history a = seed_history (arg_description args) (arg_instructions args)"
proof -
  define key where "key = py_or (arg_azure_openai_key args) (environ w ''AZURE_OPENAI_KEY'')"
  define ep where "ep = py_or (arg_azure_openai_endpoint args) (environ w ''AZURE_OPENAI_API_ENDPOINT'')"
  define version where "version = py_or (arg_azure_openai_api_version args) (environ w ''AZURE_OPENAI_API_VERSION'')"
  define deployment where "deployment = py_or (arg_azure_openai_chat_deployment_id args)
                             (environ w ''AZURE_AOAI_CHAT_MODEL_NAME_DEPLOYMENT_ID'')"
  define a0 where "a0 = new_agent w args key ep version deployment"
  have h0: "chat_history a0 = seed_history (arg_description args) (arg_instructions args)"
    by (simp add: a0_def new_agent_def Let_def)
  from assms have "a = init_defaults a0 \<or>
      (\<exists>names r a'. load_skills (read_plugin w) names a0 = (r, a') \<and> a = init_defaults a')"
    unfolding init_def Let_def key_def [symmetric] ep_def [symmetric] version_def [symmetric]
      deployment_def [symmetric] a0_def [symmetric]
    by (auto split: if_splits option.splits prod.splits sum.splits)
  then show ?thesis
    using h0 by (auto simp: init_defaults_def dest: load_skills_chat_history)
qed

text \<open>
  C8, as amended. A construction that succeeds with a non-empty description and non-empty
  instructions leaves exactly two messages in the history: the description as a system
  message, then the instructions as a user message. The constructor tests both for
  truthiness, so an empty string counts as not supplied.
\<close>

theorem init_seeds_history:
  assumes "arg_description args = Some d" and "d \<noteq> []"
    and "arg_instructions args = Some i" and "i \<noteq> []"
    and "init w args = Inr a"
  shows "chat_history a = [(System, d), (User, i)]"
  using init_chat_history [OF assms(5)] assms(1-4) by (simp add: seed_history_def)

theorem init_seeds_history_witness:
  "init demo_world demo_args = Inr demo_agent
   \<and> chat_history demo_agent = [(System, ''You are helpful''), (User, ''Be concise'')]"
proof -
  have "chat_history demo_agent = [(System, ''You are helpful''), (User, ''Be concise'')]"
    by (rule init_seeds_history [of demo_args "''You are helpful''" "''Be concise''" demo_world])
       (simp_all add: demo_args_def init_demo [unfolded demo_args_def])
  with init_demo show ?thesis by simp
qed

text \<open>
  The statement fails for a supplied but empty description: the history then holds the
  instructions only.
\<close>

theorem init_empty_description_counterexample:
  "\<not> isl (init demo_world (demo_args\<lparr>arg_description := Some []\<rparr>))
   \<and> chat_history (projr (init demo_world (demo_args\<lparr>arg_description := Some []\<rparr>)))
       = [(User, ''Be concise'')]
   \<and> chat_history (projr (init demo_world (demo_args\<lparr>arg_description := Some []\<rparr>)))
       \<noteq> [(System, []), (User, ''Be concise'')]"
  by (simp add: init_def new_agent_def init_defaults_def seed_history_def demo_world_def
      demo_args_def py_or_def missing_vars_demo Let_def)

section \<open>Planner policy\<close>

lemma assign_if_given_None:
  "assign_if_given None ok field assign st = st"
  by (cases "fst st") (simp_all add: assign_if_given_def)

lemma assign_if_given_frame:
  assumes "\<And>v c. sel (assign v c) = sel c"
  shows "sel (snd (assign_if_given arg ok field assign st)) = sel (snd st)"
  using assms by (cases "fst st"; cases arg) (simp_all add: assign_if_given_def)

lemma assign_if_given_returned:
  assumes "fst (assign_if_given (Some v) ok field assign st) = None"
  shows "snd (assign_if_given (Some v) ok field assign st) = assign v (snd st)"
  using assms by (cases "fst st") (simp_all add: assign_if_given_def split: if_splits)

lemma assign_if_given_raised:
  assumes "fst (assign_if_given arg ok field assign st) = Some e"
  shows "snd (assign_if_given arg ok field assign st) = snd st"
  using assms by (cases "fst st"; cases arg) (simp_all add: assign_if_given_def split: if_splits)

lemmas assign_if_given_frames =
  assign_if_given_frame [where sel = temperature]
  assign_if_given_frame [where sel = top_p]
  assign_if_given_frame [where sel = presence_penalty]
  assign_if_given_frame [where sel = frequency_penalty]
  assign_if_given_frame [where sel = max_tokens]
  assign_if_given_frame [where sel = number_of_responses]
  assign_if_given_frame [where sel = stop]
  assign_if_given_frame [where sel = user]
  assign_if_given_frame [where sel = function_call]
  assign_if_given_frame [where sel = stream]

lemma set_planner_execution_settings_steps:
  "set_planner_execution_settings vd t tp pp fp mt nr ss st u fc a =
     (case fst
        (assign_if_given (Some (case st of None \<Rightarrow> False | Some b \<Rightarrow> b)) (ok_stream vd)
           ''stream'' (\<lambda>v c. c\<lparr>stream := v\<rparr>)
        (assign_if_given fc (ok_function_call vd) ''function_call''
           (\<lambda>v c. c\<lparr>function_call := Some v\<rparr>)
        (assign_if_given u (ok_user vd) ''user'' (\<lambda>v c. c\<lparr>user := Some v\<rparr>)
        (assign_if_given ss (ok_stop vd) ''stop'' (\<lambda>v c. c\<lparr>stop := Some v\<rparr>)
        (assign_if_given nr (ok_number_of_responses vd) ''number_of_responses''
           (\<lambda>v c. c\<lparr>number_of_responses := Some v\<rparr>)
        (assign_if_given mt (ok_max_tokens vd) ''max_tokens''
           (\<lambda>v c. c\<lparr>max_tokens := Some v\<rparr>)
        (assign_if_given fp (ok_frequency_penalty vd) ''frequency_penalty''
           (\<lambda>v c. c\<lparr>frequency_penalty := Some v\<rparr>)
        (assign_if_given pp (ok_presence_penalty vd) ''presence_penalty''
           (\<lambda>v c. c\<lparr>presence_penalty := Some v\<rparr>)
        (assign_if_given tp (ok_top_p vd) ''top_p'' (\<lambda>v c. c\<lparr>top_p := Some v\<rparr>)
        (assign_if_given t (ok_temperature vd) ''temperature''
           (\<lambda>v c. c\<lparr>temperature := Some v\<rparr>)
        (None, planner_config a)))))))))))
      of Some e \<Rightarrow> Inl e | None \<Rightarrow> Inr (),
      a\<lparr>planner_config := snd
        (assign_if_given (Some (case st of None \<Rightarrow> False | Some b \<Rightarrow> b)) (ok_stream vd)
           ''stream'' (\<lambda>v c. c\<lparr>stream := v\<rparr>)
        (assign_if_given fc (ok_function_call vd) ''function_call''
           (\<lambda>v c. c\<lparr>function_call := Some v\<rparr>)
        (assign_if_given u (ok_user vd) ''user'' (\<lambda>v c. c\<lparr>user := Some v\<rparr>)
        (assign_if_given ss (ok_stop vd) ''stop'' (\<lambda>v c. c\<lparr>stop := Some v\<rparr>)
        (assign_if_given nr (ok_number_of_responses vd) ''number_of_responses''
           (\<lambda>v c. c\<lparr>number_of_responses := Some v\<rparr>)
        (assign_if_given mt (ok_max_tokens vd) ''max_tokens''
           (\<lambda>v c. c\<lparr>max_tokens := Some v\<rparr>)
        (assign_if_given fp (ok_frequency_penalty vd) ''frequency_penalty''
           (\<lambda>v c. c\<lparr>frequency_penalty := Some v\<rparr>)
        (assign_if_given pp (ok_presence_penalty vd) ''presence_penalty''
           (\<lambda>v c. c\<lparr>presence_penalty := Some v\<rparr>)
        (assign_if_given tp (ok_top_p vd) ''top_p'' (\<lambda>v c. c\<lparr>top_p := Some v\<rparr>)
        (assign_if_given t (ok_temperature vd) ''temperature''
           (\<lambda>v c. c\<lparr>temperature := Some v\<rparr>)
        (None, planner_config a)))))))))))\<rparr>)"
  unfolding set_planner_execution_settings_def Let_def ..

lemma set_planner_execution_settings_returns:
  assumes "fst (set_planner_execution_settings vd t tp pp fp mt nr ss st u fc a) = Inr ()"
  shows "stream (planner_config (snd (set_planner_execution_settings vd t tp pp fp mt nr ss st u
           fc a))) = (case st of None \<Rightarrow> False | Some b \<Rightarrow> b)"
  using assms
  by (simp add: set_planner_execution_settings_steps assign_if_given_returned
      split: option.splits)

lemma set_planner_execution_settings_raises:
  assumes "isl (fst (set_planner_execution_settings vd t tp pp fp mt nr ss st u fc a))"
  shows "stream (planner_config (snd (set_planner_execution_settings vd t tp pp fp mt nr ss st u
           fc a))) = stream (planner_config a)"
  using assms
  by (simp add: set_planner_execution_settings_steps assign_if_given_raised
      assign_if_given_frames split: option.splits)

lemma streaming_agent_config:
  "planner_config streaming_agent = configure_planner_config\<lparr>stream := True\<rparr>"
  by (simp add: streaming_agent_def set_planner_execution_settings_steps demo_agent_def
      assign_if_given_def range_validator_def)

text \<open>
  C4, as amended. After \<^verbatim>\<open>set_planner_execution_settings\<close>, whether the call returns or
  raises on a value that the settings object rejects, each of the nine optional fields
  (temperature, top_p, presence_penalty, frequency_penalty, max_tokens,
  number_of_responses, stop, user, function_call) that the call leaves out keeps its
  prior value. The field \<open>stream\<close> is not among them: when the call returns, \<open>stream\<close>
  holds the value of the call, which is \<open>False\<close> when the call leaves it out; when the
  call raises, \<open>stream\<close> keeps its prior value.
\<close>

theorem set_planner_execution_settings_frame:
  "(let c = planner_config a;
        r = set_planner_execution_settings vd t tp pp fp mt nr ss st u fc a;
        c' = planner_config (snd r) in
     (t = None \<longrightarrow> temperature c' = temperature c)
   \<and> (tp = None \<longrightarrow> top_p c' = top_p c)
   \<and> (pp = None \<longrightarrow> presence_penalty c' = presence_penalty c)
   \<and> (fp = None \<longrightarrow> frequency_penalty c' = frequency_penalty c)
   \<and> (mt = None \<longrightarrow> max_tokens c' = max_tokens c)
   \<and> (nr = None \<longrightarrow> number_of_responses c' = number_of_responses c)
   \<and> (ss = None \<longrightarrow> stop c' = stop c)
   \<and> (u = None \<longrightarrow> user c' = user c)
   \<and> (fc = None \<longrightarrow> function_call c' = function_call c)
   \<and> (fst r = Inr () \<longrightarrow> stream c' = (case st of None \<Rightarrow> False | Some b \<Rightarrow> b))
   \<and> (isl (fst r) \<longrightarrow> stream c' = stream c))"
proof -
  have frame: "t = None \<longrightarrow> temperature (planner_config (snd
        (set_planner_execution_settings vd t tp pp fp mt nr ss st u fc a))) =
        temperature (planner_config a)"
      "tp = None \<longrightarrow> top_p (planner_config (snd
        (set_planner_execution_settings vd t tp pp fp mt nr ss st u fc a))) =
        top_p (planner_config a)"
      "pp = None \<longrightarrow> presence_penalty (planner_config (snd
        (set_planner_execution_settings vd t tp pp fp mt nr ss st u fc a))) =
        presence_penalty (planner_config a)"
      "fp = None \<longrightarrow> frequency_penalty (planner_config (snd
        (set_planner_execution_settings vd t tp pp fp mt nr ss st u fc a))) =
        frequency_penalty (planner_config a)"
      "mt = None \<longrightarrow> max_tokens (planner_config (snd
        (set_planner_execution_settings vd t tp pp fp mt nr ss st u fc a))) =
        max_tokens (planner_config a)"
      "nr = None \<longrightarrow> number_of_responses (planner_config (snd
        (set_planner_execution_settings vd t tp pp fp mt nr ss st u fc a))) =
        number_of_responses (planner_config a)"
      "ss = None \<longrightarrow> stop (planner_config (snd
        (set_planner_execution_settings vd t tp pp fp mt nr ss st u fc a))) =
        stop (planner_config a)"
      "u = None \<longrightarrow> user (planner_config (snd
        (set_planner_execution_settings vd t tp pp fp mt nr ss st u fc a))) =
        user (planner_config a)"
      "fc = None \<longrightarrow> function_call (planner_config (snd
        (set_planner_execution_settings vd t tp pp fp mt nr ss st u fc a))) =
        function_call (planner_config a)"
    by (simp_all add: set_planner_execution_settings_steps assign_if_given_None
        assign_if_given_frames)
  show ?thesis
    unfolding Let_def
    using frame set_planner_execution_settings_returns [of vd t tp pp fp mt nr ss st u fc a]
      set_planner_execution_settings_raises [of vd t tp pp fp mt nr ss st u fc a]
    by blast
qed

theorem set_planner_execution_settings_frame_witness:
  "(let r = set_planner_execution_settings range_validator (Some (1 / 2)) None None None
              (Some 256) None None (Some True) None None demo_agent;
        c' = planner_config (snd r) in
      fst r = Inr ()
    \<and> top_p c' = None \<and> presence_penalty c' = None \<and> frequency_penalty c' = None
    \<and> number_of_responses c' = None \<and> stop c' = None \<and> user c' = None
    \<and> function_call c' = None \<and> stream c' = True)
   \<and> (let r = set_planner_execution_settings range_validator (Some 3) None None None
              None None None None None None streaming_agent;
        c' = planner_config (snd r) in
      fst r = Inl (ValidationError ''temperature'')
    \<and> temperature c' = None \<and> top_p c' = None \<and> stream c' = True)"
proof -
  have ok: "fst (set_planner_execution_settings range_validator (Some (1 / 2)) None None None
              (Some 256) None None (Some True) None None demo_agent) = Inr ()"
    by (simp add: set_planner_execution_settings_steps assign_if_given_def range_validator_def)
  have bad: "fst (set_planner_execution_settings range_validator (Some 3) None None None
              None None None None None None streaming_agent) = Inl (ValidationError ''temperature'')"
    by (simp add: set_planner_execution_settings_steps assign_if_given_def range_validator_def)
  have t: "temperature (planner_config (snd (set_planner_execution_settings range_validator
              (Some 3) None None None None None None None None None streaming_agent))) = None"
    by (simp add: set_planner_execution_settings_steps assign_if_given_def range_validator_def
        streaming_agent_config configure_planner_config_def)
  from set_planner_execution_settings_frame [of demo_agent range_validator "Some (1 / 2)" None
      None None "Some 256" None None "Some True" None None]
    set_planner_execution_settings_frame [of streaming_agent range_validator "Some 3" None
      None None None None None None None None]
  show ?thesis
    by (simp add: Let_def ok bad t demo_agent_fields streaming_agent_config
        configure_planner_config_def)
qed

text \<open>
  The statement fails for \<open>stream\<close>: an agent that streams stops streaming after a
  call that sets the temperature only.
\<close>

theorem set_planner_execution_settings_stream_counterexample:
  "stream (planner_config streaming_agent) = True
   \<and> fst (set_planner_execution_settings range_validator (Some (1 / 2)) None None None None
        None None None None None streaming_agent) = Inr ()
   \<and> stream (planner_config (snd (set_planner_execution_settings range_validator (Some (1 / 2))
        None None None None None None None None None streaming_agent))) = False"
  by (simp add: streaming_agent_config set_planner_execution_settings_steps assign_if_given_def
      range_validator_def)

text \<open>
  C5, as amended. \<^verbatim>\<open>set_planner_behavior\<close> has no range check: for every value of
  \<^verbatim>\<open>max_auto_invoke_attempts\<close>, negative ones included, and the default filters and
  behavior type, the call returns and the function choice behavior is replaced as a whole
  by one that holds the given values.
\<close>

theorem set_planner_behavior_replaces:
  "function_choice_behavior (planner_config (set_planner_behavior enable n None None a)) =
     Some \<lparr>enable_kernel_functions = enable, maximum_auto_invoke_attempts = n,
           filters = None, fcb_type = None\<rparr>"
  by (simp add: set_planner_behavior_def)

text \<open>
  With \<open>-1\<close> the call does not fail and the previous policy is gone.
\<close>

theorem set_planner_behavior_negative_counterexample:
  "function_choice_behavior (planner_config demo_agent) = Some FunctionChoiceBehavior_Auto
   \<and> function_choice_behavior (planner_config (set_planner_behavior True (- 1) None None demo_agent))
       = Some \<lparr>enable_kernel_functions = True, maximum_auto_invoke_attempts = - 1,
               filters = None, fcb_type = None\<rparr>
   \<and> function_choice_behavior (planner_config (set_planner_behavior True (- 1) None None demo_agent))
       \<noteq> function_choice_behavior (planner_config demo_agent)"
  by (simp add: set_planner_behavior_def demo_agent_fields configure_planner_config_def
      FunctionChoiceBehavior_Auto_def)

section \<open>Running a request\<close>

lemma append_prompts_chat_history:
  "chat_history (append_prompts sp up a) = chat_history a
       @ (case sp of None \<Rightarrow> [] | Some s \<Rightarrow> [(System, s)])
       @ (case up of None \<Rightarrow> [] | Some u \<Rightarrow> [(User, u)])"
  by (cases sp; cases up)
     (simp_all add: append_prompts_def add_system_message_def add_user_message_def)

lemma append_prompts_defaults:
  "default_kernel_arguments (append_prompts sp up a) = default_kernel_arguments a"
  "default_kernel_settings (append_prompts sp up a) = default_kernel_settings a"
  by (cases sp; cases up;
      simp add: append_prompts_def add_system_message_def add_user_message_def)+

lemma bind_chat_completion_chat_history:
  "bind_chat_completion a = (r, a') \<Longrightarrow> chat_history a' = chat_history a"
  by (auto simp: bind_chat_completion_def split: option.splits sum.splits)

lemma build_arguments_Inr:
  assumes "build_arguments up ra rs a = Inr args"
  shows "ka_execution_settings args =
           settings_dict (case rs of Some s \<Rightarrow> Some s | None \<Rightarrow> default_kernel_settings a)"
    and "items args = (case ra of None \<Rightarrow> default_kernel_arguments a
               | Some r \<Rightarrow> default_kernel_arguments a ++ r)(''input'' \<mapsto> optional_str up)"
  using assms
  by (auto simp: build_arguments_def KernelArguments_def Let_def split: if_splits)

lemma prepare_run_Inr:
  assumes "prepare_run sp up ra rs a = (Inr (svc, req), a')"
  shows "build_arguments up ra rs (append_prompts sp up a) = Inr (req_arguments req)"
    and "bind_chat_completion (append_prompts sp up a) = (Inr svc, a')"
  using assms
  by (auto simp: prepare_run_def Let_def split: sum.splits prod.splits)

lemma prepare_run_chat_history:
  assumes "prepare_run sp up ra rs a = (r, a')"
  shows "chat_history a' = chat_history (append_prompts sp up a)"
  using assms
  by (auto simp: prepare_run_def Let_def split: sum.splits prod.splits
      dest: bind_chat_completion_chat_history)

lemma prepare_run_request_arguments:
  assumes "prepare_run sp up ra rs a = (Inr (svc, req), a')"
  shows "ka_execution_settings (req_arguments req) =
           settings_dict (case rs of Some s \<Rightarrow> Some s | None \<Rightarrow> default_kernel_settings a)"
    and "items (req_arguments req) =
           (case ra of None \<Rightarrow> default_kernel_arguments a
            | Some r \<Rightarrow> default_kernel_arguments a ++ r)(''input'' \<mapsto> optional_str up)"
  using build_arguments_Inr [OF prepare_run_Inr(1) [OF assms]]
  by (cases rs; cases ra; simp add: append_prompts_defaults)+

lemma run_dispatch:
  assumes "prepare_run sp up ra rs a = (Inr (svc, req), a')"
  shows "run provider sp up ra rs a =
     (case provider svc req of
        Inl e \<Rightarrow> (Inl e, a')
      | Inr result \<Rightarrow> (Inr (case result of [] \<Rightarrow> Text [] | r # _ \<Rightarrow> Message r), a'))"
  using assms by (simp add: run_def)

lemma prepare_run_succeeds:
  assumes "services (kernel a) \<noteq> []"
    and "(case ra of None \<Rightarrow> default_kernel_arguments a
          | Some r \<Rightarrow> default_kernel_arguments a ++ r) ''settings'' = None"
    and "(case ra of None \<Rightarrow> default_kernel_arguments a
          | Some r \<Rightarrow> default_kernel_arguments a ++ r) ''self'' = None"
  shows "\<exists>svc req a'. prepare_run sp up ra rs a = (Inr (svc, req), a')"
proof -
  define a2 where "a2 = append_prompts sp up a"
  have k: "kernel a2 = kernel a"
    by (cases sp; cases up)
       (simp_all add: a2_def append_prompts_def add_system_message_def add_user_message_def)
  have "\<exists>args. build_arguments up ra rs a2 = Inr args"
    using assms(2,3)
    by (cases ra)
       (simp_all add: build_arguments_def KernelArguments_def Let_def a2_def
          append_prompts_defaults)
  moreover have "\<exists>svc a3. bind_chat_completion a2 = (Inr svc, a3)"
    using assms(1) k
    by (cases "chat_completion a2"; cases "services (kernel a)")
       (simp_all add: bind_chat_completion_def Kernel_get_service_def)
  ultimately show ?thesis
    by (auto simp: prepare_run_def a2_def [symmetric])
qed

lemma agent_with_defaults_fields:
  "services (kernel agent_with_defaults) \<noteq> []"
  "default_kernel_arguments agent_with_defaults = map_of [(''x'', PyInt 0), (''y'', PyInt 2)]"
  "default_kernel_settings agent_with_defaults = None"
  by (simp_all add: agent_with_defaults_def configure_kernel_arguments_def demo_agent_def
      initialize_kernel_def)

lemma agent_with_settings_fields:
  "services (kernel agent_with_settings) \<noteq> []"
  "default_kernel_arguments agent_with_settings = Map.empty"
  "default_kernel_settings agent_with_settings = Some (OneSetting configure_planner_config)"
  "planner_config agent_with_settings = configure_planner_config"
  by (simp_all add: agent_with_settings_def configure_kernel_arguments_def demo_agent_def
      initialize_kernel_def)

text \<open>
  C1. When the provider is reached and answers with a list, \<^verbatim>\<open>run\<close> returns the first
  element of the list, and the empty string, without raising, when the list is empty.
\<close>

theorem run_returns_first_or_empty:
  assumes "prepare_run sp up ra rs a = (Inr (svc, req), a')"
    and "provider svc req = Inr result"
  shows "(result = [] \<longrightarrow> fst (run provider sp up ra rs a) = Inr (Text []))
       \<and> (\<forall>r rest. result = r # rest \<longrightarrow> fst (run provider sp up ra rs a) = Inr (Message r))"
  using assms by (auto simp: run_dispatch)

theorem run_returns_first_or_empty_witness:
  "fst (run (stub_provider (Inr [])) None (Some ''2+2?'') None None demo_agent) = Inr (Text [])
   \<and> fst (run (stub_provider (Inr [(Assistant, ''4''), (Assistant, ''four'')])) None
            (Some ''2+2?'') None None demo_agent) = Inr (Message (Assistant, ''4''))"
proof -
  obtain svc req a' where
    p: "prepare_run None (Some ''2+2?'') None None demo_agent = (Inr (svc, req), a')"
    using prepare_run_succeeds [OF demo_agent_services, of None]
    by (simp add: demo_agent_fields) blast
  have e: "stub_provider (Inr []) svc req = Inr []"
    by (simp add: stub_provider_def)
  have f: "stub_provider (Inr [(Assistant, ''4''), (Assistant, ''four'')]) svc req
             = Inr [(Assistant, ''4''), (Assistant, ''four'')]"
    by (simp add: stub_provider_def)
  from run_returns_first_or_empty [where provider = "stub_provider (Inr [])", OF p e]
    run_returns_first_or_empty
      [where provider = "stub_provider (Inr [(Assistant, ''4''), (Assistant, ''four'')])", OF p f]
  show ?thesis by simp
qed

text \<open>
  C2, as amended. On every key other than \<^verbatim>\<open>input\<close>, the arguments dispatched to the
  provider are the union of the default arguments of the agent and the arguments of the
  call, the value of the call winning on a key present in both. The entry \<^verbatim>\<open>input\<close> is
  not part of the union: it is assigned after the merge.
\<close>

theorem run_arguments_merge:
  assumes "prepare_run sp up ra rs a = (Inr (svc, req), a')"
    and "k \<noteq> ''input''"
  shows "items (req_arguments req) k =
     (case ra of
        None \<Rightarrow> default_kernel_arguments a k
      | Some r \<Rightarrow> (case r k of Some v \<Rightarrow> Some v | None \<Rightarrow> default_kernel_arguments a k))"
  using assms(2) prepare_run_request_arguments(2) [OF assms(1)]
  by (cases ra) (simp_all add: map_add_def)

theorem run_arguments_merge_witness:
  "items (req_arguments (snd (projr (fst (prepare_run None (Some ''hi'')
       (Some (map_of [(''x'', PyInt 1)])) None agent_with_defaults))))) ''x'' = Some (PyInt 1)
   \<and> items (req_arguments (snd (projr (fst (prepare_run None (Some ''hi'')
       (Some (map_of [(''x'', PyInt 1)])) None agent_with_defaults))))) ''y'' = Some (PyInt 2)
   \<and> items (req_arguments (snd (projr (fst (prepare_run None (Some ''hi'')
       (Some (map_of [(''x'', PyInt 1)])) None agent_with_defaults))))) ''z'' = None"
proof -
  obtain svc req a' where
    p: "prepare_run None (Some ''hi'') (Some (map_of [(''x'', PyInt 1)])) None agent_with_defaults
          = (Inr (svc, req), a')"
    using prepare_run_succeeds [OF agent_with_defaults_fields(1),
        of "Some (map_of [(''x'', PyInt 1)])" None "Some ''hi''" None]
    by (simp add: agent_with_defaults_fields map_add_def) blast
  have "''x'' \<noteq> ''input''" "''y'' \<noteq> ''input''" "''z'' \<noteq> ''input''" by simp_all
  from this [THEN run_arguments_merge [OF p]] show ?thesis
    unfolding p by (simp add: agent_with_defaults_fields)
qed

text \<open>
  The statement fails on the key \<^verbatim>\<open>input\<close>: with defaults \<open>{x: 0, y: 2}\<close> and call
  arguments \<open>{x: 1}\<close> the dispatched mapping has an entry \<^verbatim>\<open>input\<close>, which
  \<open>{x: 1, y: 2}\<close> has not.
\<close>

theorem run_arguments_input_counterexample:
  "\<not> isl (fst (prepare_run None None (Some (map_of [(''x'', PyInt 1)])) None agent_with_defaults))
   \<and> items (req_arguments (snd (projr (fst (prepare_run None None
         (Some (map_of [(''x'', PyInt 1)])) None agent_with_defaults))))) ''input'' = Some PyNone
   \<and> map_of [(''x'', PyInt 1), (''y'', PyInt 2)] ''input'' = None"
proof -
  obtain svc req a' where
    p: "prepare_run None None (Some (map_of [(''x'', PyInt 1)])) None agent_with_defaults
          = (Inr (svc, req), a')"
    using prepare_run_succeeds [OF agent_with_defaults_fields(1),
        of "Some (map_of [(''x'', PyInt 1)])" None None None]
    by (simp add: agent_with_defaults_fields map_add_def) blast
  from prepare_run_request_arguments(2) [OF p] show ?thesis
    unfolding p by simp
qed

text \<open>
  C6. When the provider raises, \<^verbatim>\<open>run\<close> raises the same exception, and the history it
  leaves behind is the history before the call followed by the system prompt and the user
  prompt of the call, as far as given: nothing is rolled back.
\<close>

theorem run_provider_failure:
  assumes "prepare_run sp up ra rs a = (Inr (svc, req), a')"
    and "provider svc req = Inl e"
  shows "fst (run provider sp up ra rs a) = Inl e
       \<and> chat_history (snd (run provider sp up ra rs a)) =
           chat_history a
           @ (case sp of None \<Rightarrow> [] | Some s \<Rightarrow> [(System, s)])
           @ (case up of None \<Rightarrow> [] | Some u \<Rightarrow> [(User, u)])"
  using assms prepare_run_chat_history [OF assms(1)]
  by (simp add: run_dispatch append_prompts_chat_history)

theorem run_provider_failure_witness:
  "fst (run (stub_provider (Inl (ProviderFault ''timeout''))) (Some ''Be brief'') (Some ''2+2?'')
          None None demo_agent) = Inl (ProviderFault ''timeout'')
   \<and> chat_history (snd (run (stub_provider (Inl (ProviderFault ''timeout''))) (Some ''Be brief'')
          (Some ''2+2?'') None None demo_agent)) =
       [(System, ''You are helpful''), (User, ''Be concise''),
        (System, ''Be brief''), (User, ''2+2?'')]"
proof -
  obtain svc req a' where
    p: "prepare_run (Some ''Be brief'') (Some ''2+2?'') None None demo_agent = (Inr (svc, req), a')"
    using prepare_run_succeeds [OF demo_agent_services, of None]
    by (simp add: demo_agent_fields) blast
  have e: "stub_provider (Inl (ProviderFault ''timeout'')) svc req = Inl (ProviderFault ''timeout'')"
    by (simp add: stub_provider_def)
  from run_provider_failure
    [where provider = "stub_provider (Inl (ProviderFault ''timeout''))", OF p e]
  show ?thesis by (simp add: demo_agent_fields)
qed

lemma append_prompts_planner_config:
  "planner_config (append_prompts sp up a) = planner_config a"
  by (cases sp; cases up)
     (simp_all add: append_prompts_def add_system_message_def add_user_message_def)

lemma bind_chat_completion_planner_config:
  "bind_chat_completion a = (r, a') \<Longrightarrow> planner_config a' = planner_config a"
  by (auto simp: bind_chat_completion_def split: option.splits sum.splits)

lemma prepare_run_request_settings:
  assumes "prepare_run sp up ra rs a = (Inr (svc, req), a')"
  shows "req_settings req = planner_config a"
proof -
  from assms have "req_settings req = planner_config a'"
    by (auto simp: prepare_run_def Let_def split: sum.splits prod.splits)
  also have "planner_config a' = planner_config (append_prompts sp up a)"
    using prepare_run_Inr(2) [OF assms] by (rule bind_chat_completion_planner_config)
  finally show ?thesis by (simp add: append_prompts_planner_config)
qed

text \<open>
  C7, as amended. The settings with which the provider is called are the planner
  configuration of the agent, whatever the settings of the call and the default settings
  are. The settings of the call decide the execution settings carried by the dispatched
  arguments: when the call gives settings, these are the dictionary that
  \<^verbatim>\<open>KernelArguments\<close> builds from the settings of the call alone, taken whole, the
  default settings of the agent contributing nothing; when the call gives none, the
  dictionary built from the default settings of the agent alone.
\<close>

theorem run_settings_resolution:
  assumes "prepare_run sp up ra rs a = (Inr (svc, req), a')"
  shows "req_settings req = planner_config a
       \<and> (\<forall>s. rs = Some s \<longrightarrow>
             ka_execution_settings (req_arguments req) = settings_dict (Some s))
       \<and> (rs = None \<longrightarrow>
             ka_execution_settings (req_arguments req) =
               settings_dict (default_kernel_settings a))"
  using prepare_run_request_arguments(1) [OF assms] prepare_run_request_settings [OF assms]
  by auto

theorem run_settings_resolution_witness:
  "req_settings (snd (projr (fst (prepare_run None None None
       (Some (OneSetting custom_settings)) agent_with_settings)))) = configure_planner_config
   \<and> ka_execution_settings (req_arguments (snd (projr (fst (prepare_run None None None
       (Some (OneSetting custom_settings)) agent_with_settings)))))
       = Some (map_of [(''default'', custom_settings)])
   \<and> ka_execution_settings (req_arguments (snd (projr (fst (prepare_run None None None
       None agent_with_settings)))))
       = Some (map_of [(''default'', configure_planner_config)])"
proof -
  obtain svc req a' where
    p: "prepare_run None None None (Some (OneSetting custom_settings)) agent_with_settings
          = (Inr (svc, req), a')"
    using prepare_run_succeeds [OF agent_with_settings_fields(1), of None None None
        "Some (OneSetting custom_settings)"]
    by (simp add: agent_with_settings_fields) blast
  obtain svc2 req2 a2 where
    q: "prepare_run None None None None agent_with_settings = (Inr (svc2, req2), a2)"
    using prepare_run_succeeds [OF agent_with_settings_fields(1), of None None None None]
    by (simp add: agent_with_settings_fields) blast
  have k: "settings_key custom_settings = ''default''"
      "settings_key configure_planner_config = ''default''"
    by (simp_all add: settings_key_def custom_settings_def configure_planner_config_def)
  from run_settings_resolution [OF p] run_settings_resolution [OF q] show ?thesis
    unfolding p q by (simp add: agent_with_settings_fields k)
qed

text \<open>
  The statement fails for the settings of the dispatch itself: a call that gives settings
  with a temperature is dispatched with the planner configuration, which has none.
\<close>

theorem run_settings_dispatch_counterexample:
  "\<not> isl (fst (prepare_run None None None (Some (OneSetting custom_settings)) demo_agent))
   \<and> req_settings (snd (projr (fst (prepare_run None None None
         (Some (OneSetting custom_settings)) demo_agent)))) = configure_planner_config
   \<and> temperature configure_planner_config = None
   \<and> temperature custom_settings = Some (1 / 5)"
proof -
  obtain svc req a' where
    p: "prepare_run None None None (Some (OneSetting custom_settings)) demo_agent
          = (Inr (svc, req), a')"
    using prepare_run_succeeds [OF demo_agent_services, of None None None
        "Some (OneSetting custom_settings)"]
    by (simp add: demo_agent_fields) blast
  from prepare_run_request_settings [OF p] show ?thesis
    unfolding p
    by (simp add: demo_agent_fields custom_settings_def configure_planner_config_def)
qed

text \<open>
  C10. Whatever the merged arguments hold under \<^verbatim>\<open>input\<close>, the dispatched arguments
  hold the user prompt of the call there, \<^verbatim>\<open>None\<close> when no user prompt is given: an
  \<^verbatim>\<open>input\<close> supplied by the caller never reaches the provider.
\<close>

theorem run_input_overwritten:
  assumes "prepare_run sp up ra rs a = (Inr (svc, req), a')"
  shows "items (req_arguments req) ''input'' = Some (optional_str up)"
  using prepare_run_request_arguments(2) [OF assms] by simp

theorem run_input_overwritten_witness:
  "\<not> isl (fst (prepare_run None None (Some (map_of [(''input'', PyStr ''spoofed'')])) None demo_agent))
   \<and> items (req_arguments (snd (projr (fst (prepare_run None None
         (Some (map_of [(''input'', PyStr ''spoofed'')])) None demo_agent))))) ''input'' = Some PyNone"
proof -
  obtain svc req a' where
    p: "prepare_run None None (Some (map_of [(''input'', PyStr ''spoofed'')])) None demo_agent
          = (Inr (svc, req), a')"
    using prepare_run_succeeds [OF demo_agent_services,
        of "Some (map_of [(''input'', PyStr ''spoofed'')])" None None None]
    by (simp add: demo_agent_fields map_add_def) blast
  from run_input_overwritten [OF p] show ?thesis unfolding p by simp
qed

section \<open>Loading skills\<close>

lemma Skills_load_skills_single:
  "Skills_load_skills [n] m = Skills_load_one n m"
  by (cases "Skills_load_one n m") (auto split: sum.splits)

lemma Skills_load_one_loaded:
  "loaded m n = Some b \<Longrightarrow> Skills_load_one n m = (Inr (), m)"
  by (simp add: Skills_load_one_def)

lemma Skills_load_one_cases:
  obtains (already) b where "loaded m n = Some b" "Skills_load_one n m = (Inr (), m)"
  | (fresh) b where "loaded m n = None" "Skills_load_one n m = (Inr (), m\<lparr>loaded := (loaded m)(n \<mapsto> b)\<rparr>)"
  | (failed) e where "loaded m n = None" "Skills_load_one n m = (Inl e, m)"
proof (cases "loaded m n")
  case (Some b)
  then show ?thesis by (auto intro: already simp: Skills_load_one_def)
next
  case None
  show ?thesis
  proof (cases "bundles m n")
    case bn: None
    with None show ?thesis by (auto intro: failed simp: Skills_load_one_def)
  next
    case (Some b)
    with None show ?thesis
      by (cases "capabilities b = []") (auto intro: failed fresh simp: Skills_load_one_def)
  qed
qed

lemma Kernel_add_plugin_twice:
  "Kernel_add_plugin load d nm k = Inr k' \<Longrightarrow> Kernel_add_plugin load d nm k' = Inr k'"
  by (auto simp: Kernel_add_plugin_def split: if_splits sum.splits)

lemma load_skills_loop_single:
  "load_skills_loop load [n] a =
     (case Skills_get_skill (skills_manager a) n of
        Inl e \<Rightarrow> (Inl e, a)
      | Inr b \<Rightarrow>
          (case Kernel_add_plugin load (dirname (directory b)) (basename (directory b)) (kernel a) of
             Inl e \<Rightarrow> (Inl e, a)
           | Inr k \<Rightarrow> (Inr (), a\<lparr>kernel := k\<rparr>)))"
  by (simp add: Let_def split: sum.splits)

lemma load_skills_already:
  assumes "loaded (skills_manager a) n = Some b"
  shows "load_skills load [n] a =
     (case Kernel_add_plugin load (dirname (directory b)) (basename (directory b)) (kernel a) of
        Inl e \<Rightarrow> (Inl e, a)
      | Inr k \<Rightarrow> (Inr (), a\<lparr>kernel := k\<rparr>))"
  using assms
  by (simp add: load_skills_def Skills_load_skills_single Skills_load_one_loaded
      load_skills_loop_single Skills_get_skill_def
      del: load_skills_loop.simps Skills_load_skills.simps split: sum.splits)

lemma load_skills_again:
  assumes "loaded (skills_manager a) n = Some b"
  shows "load_skills load [n] (snd (load_skills load [n] a)) = load_skills load [n] a"
proof (cases "Kernel_add_plugin load (dirname (directory b)) (basename (directory b)) (kernel a)")
  case (Inl e)
  with assms show ?thesis by (simp add: load_skills_already)
next
  case (Inr k)
  then have first: "load_skills load [n] a = (Inr (), a\<lparr>kernel := k\<rparr>)"
    using assms by (simp add: load_skills_already)
  have "loaded (skills_manager (a\<lparr>kernel := k\<rparr>)) n = Some b" using assms by simp
  then have "load_skills load [n] (a\<lparr>kernel := k\<rparr>) =
     (case Kernel_add_plugin load (dirname (directory b)) (basename (directory b)) k of
        Inl e \<Rightarrow> (Inl e, a\<lparr>kernel := k\<rparr>)
      | Inr k' \<Rightarrow> (Inr (), a\<lparr>kernel := k'\<rparr>))"
    by (simp add: load_skills_already split: sum.splits)
  with Kernel_add_plugin_twice [OF Inr] first show ?thesis by simp
qed

lemma load_skills_twice:
  "load_skills load [n] (snd (load_skills load [n] a)) = load_skills load [n] a"
proof (cases rule: Skills_load_one_cases [of "skills_manager a" n])
  case (already b)
  from already(1) show ?thesis by (rule load_skills_again)
next
  case (fresh b)
  define a1 where "a1 = a\<lparr>skills_manager := (skills_manager a)\<lparr>loaded := (loaded (skills_manager a))(n \<mapsto> b)\<rparr>\<rparr>"
  have l1: "loaded (skills_manager a1) n = Some b" by (simp add: a1_def)
  have step: "load_skills load [n] a = load_skills load [n] a1"
    using fresh l1
    by (simp add: load_skills_def Skills_load_skills_single Skills_load_one_loaded a1_def
        del: load_skills_loop.simps Skills_load_skills.simps)
  have "load_skills load [n] (snd (load_skills load [n] a1)) = load_skills load [n] a1"
    using l1 by (rule load_skills_again)
  with step show ?thesis by simp
next
  case (failed e)
  then show ?thesis
    by (simp add: load_skills_def Skills_load_skills_single
        del: load_skills_loop.simps Skills_load_skills.simps)
qed

lemma Skills_load_skills_double:
  "Skills_load_skills [n, n] m = Skills_load_one n m"
proof (cases rule: Skills_load_one_cases [of m n])
  case (already b)
  then show ?thesis by simp
next
  case (fresh b)
  then show ?thesis by (simp add: Skills_load_one_def)
next
  case (failed e)
  then show ?thesis by simp
qed

lemma load_skills_loop_double:
  assumes "loaded (skills_manager a) n = Some b"
  shows "load_skills_loop load [n, n] a = load_skills_loop load [n] a"
proof (cases "Kernel_add_plugin load (dirname (directory b)) (basename (directory b)) (kernel a)")
  case (Inl e)
  with assms show ?thesis by (simp add: Skills_get_skill_def Let_def)
next
  case (Inr k)
  from Kernel_add_plugin_twice [OF Inr] Inr assms show ?thesis
    by (simp add: Skills_get_skill_def Let_def)
qed

lemma Skills_load_one_Inr_loaded:
  "Skills_load_one n m = (Inr u, m') \<Longrightarrow> \<exists>b. loaded m' n = Some b"
  by (auto simp: Skills_load_one_def split: option.splits if_splits)

lemma load_skills_double: "load_skills load [n, n] a = load_skills load [n] a"
proof (cases "Skills_load_one n (skills_manager a)")
  case (Pair r m')
  show ?thesis
  proof (cases r)
    case (Inl e)
    with Pair show ?thesis
      by (simp add: load_skills_def Skills_load_skills_double Skills_load_skills_single
          del: load_skills_loop.simps Skills_load_skills.simps)
  next
    case (Inr u)
    with Pair obtain b where "loaded m' n = Some b"
      by (auto dest: Skills_load_one_Inr_loaded)
    then have "loaded (skills_manager (a\<lparr>skills_manager := m'\<rparr>)) n = Some b" by simp
    from load_skills_loop_double [OF this] Pair Inr show ?thesis
      by (simp add: load_skills_def Skills_load_skills_double Skills_load_skills_single
          del: load_skills_loop.simps Skills_load_skills.simps)
  qed
qed

text \<open>
  C9. For every skill name and every state of the agent, loading the name a second time
  gives the result and the state of the first load: the set of loaded skills, the
  registry and the plugin table of the kernel are the same, with no second
  registration; and a call that names the skill twice does what a call that names it
  once does. The registry is the one modelled from the specification; the agent hands
  the directory of the skill to the kernel again, which stores the plugin under the same
  name.
\<close>

theorem load_skills_idempotent:
  "load_skills load [n] (snd (load_skills load [n] a)) = load_skills load [n] a
   \<and> load_skills load [n, n] a = load_skills load [n] a"
  by (rule conjI [OF load_skills_twice load_skills_double])

end
